theory Spec2Isabelle
  imports Main "HOL-Library.Word"
begin

section \<open>Data model\<close>

text \<open>
  Heights are \<open>size_t\<close> values and wrap around at 64 bits; a hash is a 32-byte digest.
  A checkpoint pairs a hash with a height.
\<close>

type_synonym size_t = "64 word"
type_synonym hash_digest = "256 word"
type_synonym checkpoint = "hash_digest \<times> size_t"

text \<open>
  The error codes the node tells apart: \<open>if (ec)\<close> holds for every code but
  \<open>success\<close>; every code of the library that the node does not name is an
  \<open>other_error\<close>.
\<close>

datatype code = success | service_stopped | operation_failed | other_error nat

text \<open>Of a header and of a block the node reads the hash only.\<close>

record header =
  header_hash :: hash_digest

record block =
  block_hash :: hash_digest

datatype level = debug | info | warning | error | fatal

text \<open>
  What a member function of \<open>full_node\<close> does to the outside: the calls it makes on the
  network base class (\<open>p2p\<close>), on the chain and on the reservations, the log lines it
  writes (the fixed text, without the interpolated values) and the invocations of the
  completion handler it was given.
\<close>

datatype event =
    Handler code
  | Log level string
  | Chain_start
  | Chain_stop
  | Chain_close
  | P2p_start
  | P2p_run
  | P2p_stop
  | P2p_close
  | Subscribe_headers
  | Subscribe_blocks
  | Push_front hash_digest size_t
  | Push_back header size_t
  | Pop_back header size_t

text \<open>
  The node: the two cached tops kept by the base class (\<open>set_top_block\<close>,
  \<open>set_top_header\<close>), the download queue, and the trace of events so far.
\<close>

record full_node =
  top_block :: checkpoint
  top_header :: checkpoint
  reservations :: "(hash_digest \<times> size_t) list"
  trace :: "event list"

text \<open>
  The network and the chain are other libraries. What they answer during one call of a
  member function is a parameter of the model:
  \<^item> \<open>p2p_stopped\<close>: the value of \<open>stopped()\<close>;
  \<^item> \<open>chain_start_ok\<close>, \<open>p2p_stop_ok\<close>, \<open>chain_stop_ok\<close>, \<open>p2p_close_ok\<close>,
    \<open>chain_close_ok\<close>: the results of the lifecycle calls;
  \<^item> \<open>p2p_start_calls\<close>, \<open>p2p_run_calls\<close>: the codes with which \<open>p2p::start\<close> and
    \<open>p2p::run\<close> invoke the handler passed to them, one entry per invocation;
  \<^item> \<open>get_top\<close>: by the candidate flag, the top checkpoint, or \<open>None\<close> when the call
    returns false;
  \<^item> \<open>top_valid_height\<close>: the height of \<open>top_valid_candidate_state()\<close>;
  \<^item> \<open>get_downloadable\<close>: by height, the hash written to the out parameter when the
    call returns true, or \<open>None\<close> when it returns false and leaves the parameter as it was.
\<close>

record collaborators =
  p2p_stopped :: bool
  chain_start_ok :: bool
  p2p_start_calls :: "code list"
  p2p_run_calls :: "code list"
  get_top :: "bool \<Rightarrow> checkpoint option"
  top_valid_height :: size_t
  get_downloadable :: "size_t \<Rightarrow> hash_digest option"
  p2p_stop_ok :: bool
  chain_stop_ok :: bool
  p2p_close_ok :: bool
  chain_close_ok :: bool

definition emit :: "event \<Rightarrow> full_node \<Rightarrow> full_node" where
  "emit e s = s\<lparr>trace := trace s @ [e]\<rparr>"

definition set_top_block :: "checkpoint \<Rightarrow> full_node \<Rightarrow> full_node" where
  "set_top_block cp s = s\<lparr>top_block := cp\<rparr>"

definition set_top_header :: "checkpoint \<Rightarrow> full_node \<Rightarrow> full_node" where
  "set_top_header cp s = s\<lparr>top_header := cp\<rparr>"

section \<open>Shutdown\<close>

text \<open>
  \<open>full_node::stop\<close>: both subsystems are stopped, the network first, before either
  result is looked at; each failure is logged; the result is the conjunction.
\<close>

definition stop :: "collaborators \<Rightarrow> full_node \<Rightarrow> bool \<times> full_node" where
  "stop c s =
    (let s1 = emit P2p_stop s;
         p2p_stop = p2p_stop_ok c;
         s2 = emit Chain_stop s1;
         chain_stop = chain_stop_ok c;
         s3 = (if p2p_stop then s2 else emit (Log error ''Failed to stop network.'') s2);
         s4 = (if chain_stop then s3 else emit (Log error ''Failed to stop blockchain.'') s3)
     in (p2p_stop \<and> chain_stop, s4))"

text \<open>
  \<open>full_node::close\<close>: its own stop first; when that fails nothing is closed.
\<close>

definition close :: "collaborators \<Rightarrow> full_node \<Rightarrow> bool \<times> full_node" where
  "close c s =
    (let (stopped_ok, s0) = stop c s in
     if stopped_ok then
       (let s1 = emit P2p_close s0;
            p2p_close = p2p_close_ok c;
            s2 = emit Chain_close s1;
            chain_close = chain_close_ok c;
            s3 = (if p2p_close then s2 else emit (Log error ''Failed to close network.'') s2);
            s4 = (if chain_close then s3 else emit (Log error ''Failed to close blockchain.'') s3)
        in (p2p_close \<and> chain_close, s4))
     else (False, s0))"

section \<open>Start\<close>


definition p2p_run :: "collaborators \<Rightarrow> full_node \<Rightarrow> full_node" where
  "p2p_run c s = s\<lparr>trace := trace s @ P2p_run # map Handler (p2p_run_calls c)\<rparr>"


section \<open>Reservations\<close>

text \<open>
  Modelled from the spec: class \<open>reservations\<close> is declared and defined outside the
  sources at hand. Section 4.1 describes the queue as a double-ended, ordered container
  of (hash, height) entries; \<open>push_front\<close> inserts at the high-priority end.
\<close>

definition queue_push_front ::
  "hash_digest \<Rightarrow> size_t \<Rightarrow> (hash_digest \<times> size_t) list \<Rightarrow> (hash_digest \<times> size_t) list" where
  "queue_push_front h n q = (h, n) # q"

text \<open>
  Modelled from the spec: \<open>reservations::push_back\<close> is not in the sources. Section 4.1:
  \<open>push_back\<close> inserts at the low-priority end, the tail.
\<close>

definition queue_push_back ::
  "header \<Rightarrow> size_t \<Rightarrow> (hash_digest \<times> size_t) list \<Rightarrow> (hash_digest \<times> size_t) list" where
  "queue_push_back hdr n q = q @ [(header_hash hdr, n)]"

text \<open>
  Modelled from the spec: \<open>reservations::pop_back\<close> is not in the sources. Section 4.1:
  it removes the entry at the given height iff its hash matches the header's, and is a
  no-op if that height and hash are not at the tail position.
\<close>

definition queue_pop_back ::
  "header \<Rightarrow> size_t \<Rightarrow> (hash_digest \<times> size_t) list \<Rightarrow> (hash_digest \<times> size_t) list" where
  "queue_pop_back hdr n q =
    (case rev q of
       [] \<Rightarrow> q
     | e # _ \<Rightarrow> if e = (header_hash hdr, n) then butlast q else q)"

text \<open>The calls the node makes on its reservations: the event, and the queue updated.\<close>

definition push_front :: "hash_digest \<Rightarrow> size_t \<Rightarrow> full_node \<Rightarrow> full_node" where
  "push_front h n s =
    emit (Push_front h n) (s\<lparr>reservations := queue_push_front h n (reservations s)\<rparr>)"

definition push_back :: "header \<Rightarrow> size_t \<Rightarrow> full_node \<Rightarrow> full_node" where
  "push_back hdr n s =
    emit (Push_back hdr n) (s\<lparr>reservations := queue_push_back hdr n (reservations s)\<rparr>)"

definition pop_back :: "header \<Rightarrow> size_t \<Rightarrow> full_node \<Rightarrow> full_node" where
  "pop_back hdr n s =
    emit (Pop_back hdr n) (s\<lparr>reservations := queue_pop_back hdr n (reservations s)\<rparr>)"

section \<open>Run\<close>

text \<open>
  The loop of \<open>handle_running\<close> that seeds the reservations:
  \<^verbatim>\<open>for (auto height = candidate.height(); height > top_valid; --height)
    if (chain_.get_downloadable(hash, height) || height == start_height)
        reservations_.push_front(std::move(hash), height);\<close>
  The variable \<open>hash\<close> lives outside the loop: a failed \<open>get_downloadable\<close> leaves in it
  what the last successful one wrote (moving from an array copies it).
\<close>

function scan_header_index ::
  "collaborators \<Rightarrow> size_t \<Rightarrow> size_t \<Rightarrow> size_t \<Rightarrow> hash_digest \<Rightarrow> full_node \<Rightarrow> full_node" where
  "scan_header_index c top_valid start_height height hash s =
    (if top_valid < height then
       (case get_downloadable c height of
          Some found \<Rightarrow>
            scan_header_index c top_valid start_height (height - 1) found
              (push_front found height s)
        | None \<Rightarrow>
            scan_header_index c top_valid start_height (height - 1) hash
              (if height = start_height then push_front hash height s else s))
     else s)"
  by pat_completeness auto
termination
proof (relation "measure (\<lambda>(c, top_valid, start_height, height, hash, s). unat height)")
  show "wf (measure (\<lambda>(c, top_valid, start_height, height, hash, s). unat height))"
    by simp
next
  fix c :: collaborators and top_valid start_height height :: size_t
    and hash found :: hash_digest and s :: full_node
  assume "top_valid < height"
  then have "height \<noteq> 0"
    by (auto simp: word_less_nat_alt)
  then have "unat (height - 1) < unat height"
    by (simp add: unat_minus_one unat_gt_0)
  then show "((c, top_valid, start_height, height - 1, found, push_front found height s),
              (c, top_valid, start_height, height, hash, s))
             \<in> measure (\<lambda>(c, top_valid, start_height, height, hash, s). unat height)"
    and "((c, top_valid, start_height, height - 1, hash,
            if height = start_height then push_front hash height s else s),
           (c, top_valid, start_height, height, hash, s))
          \<in> measure (\<lambda>(c, top_valid, start_height, height, hash, s). unat height)"
    by simp_all
qed

declare scan_header_index.simps [simp del]

text \<open>
  \<open>full_node::handle_running\<close>. The local \<open>hash\<close> is declared without an initial value;
  what it holds before the first successful \<open>get_downloadable\<close> is the parameter
  \<open>uninitialized\<close>.
\<close>

definition handle_running ::
  "collaborators \<Rightarrow> hash_digest \<Rightarrow> code \<Rightarrow> full_node \<Rightarrow> full_node" where
  "handle_running c uninitialized ec s =
    (if p2p_stopped c then emit (Handler service_stopped) s
     else if ec \<noteq> success
     then emit (Handler ec) (emit (Log error ''Failure synchronizing blocks: '') s)
     else
       (case get_top c False of
          None \<Rightarrow>
            emit (Handler operation_failed)
              (emit (Log error ''The block chain is corrupt.'') s)
        | Some confirmed \<Rightarrow>
            (let s1 = emit (Log info ''Top confirmed block height is ().'')
                        (set_top_block confirmed s)
             in case get_top c True of
                  None \<Rightarrow>
                    emit (Handler operation_failed)
                      (emit (Log error ''The candidate chain is corrupt.'') s1)
                | Some candidate \<Rightarrow>
                    (let s2 = emit (Log info ''Top candidate block height is ().'')
                                (set_top_header candidate s1);
                         top_valid = top_valid_height c;
                         start_height = top_valid + 1;
                         s3 = emit (Log info ''Top valid candidate block height ().'') s2;
                         s4 = scan_header_index c top_valid start_height (snd candidate)
                                uninitialized s3;
                         s5 = emit (Log info ''Pending block downloads ().'') s4;
                         s6 = emit Subscribe_headers s5;
                         s7 = emit Subscribe_blocks s6
                     in p2p_run c s7))))"

text \<open>\<open>full_node::run\<close>.\<close>

definition run :: "collaborators \<Rightarrow> hash_digest \<Rightarrow> full_node \<Rightarrow> full_node" where
  "run c uninitialized s =
    (if p2p_stopped c then emit (Handler service_stopped) s
     else handle_running c uninitialized success s)"

section \<open>Reorganization handlers\<close>

text \<open>
  Both lists arrive by shared pointer. The handlers test \<open>incoming\<close> for null, so it is
  an option here (\<open>None\<close> the null pointer); \<open>outgoing\<close> is dereferenced without a
  test, so the model takes the list it points to.
\<close>

text \<open>
  \<^verbatim>\<open>for (const auto header: reverse(*outgoing))
    reservations_.pop_back(*header, height--);\<close>
  over the list already reversed; the height after the loop is returned with the node.
\<close>

fun pop_outgoing :: "header list \<Rightarrow> size_t \<Rightarrow> full_node \<Rightarrow> size_t \<times> full_node" where
  "pop_outgoing [] height s = (height, s)"
| "pop_outgoing (hdr # rest) height s = pop_outgoing rest (height - 1) (pop_back hdr height s)"

text \<open>
  \<^verbatim>\<open>for (const auto header: *incoming)
    reservations_.push_back(*header, ++height);\<close>
\<close>

fun push_incoming :: "header list \<Rightarrow> size_t \<Rightarrow> full_node \<Rightarrow> size_t \<times> full_node" where
  "push_incoming [] height s = (height, s)"
| "push_incoming (hdr # rest) height s =
     push_incoming rest (height + 1) (push_back hdr (height + 1) s)"

text \<open>
  \<open>full_node::handle_reindexed\<close>: the result is the flag returned to the subscriber
  (false unsubscribes) and the node afterwards.
\<close>

definition handle_reindexed ::
  "collaborators \<Rightarrow> code \<Rightarrow> size_t \<Rightarrow> header list option \<Rightarrow> header list \<Rightarrow> full_node
    \<Rightarrow> bool \<times> full_node" where
  "handle_reindexed c ec fork_height incoming outgoing s =
    (if p2p_stopped c \<or> ec = service_stopped then (False, s)
     else if ec \<noteq> success
     then (False, snd (stop c (emit (Log error ''Failure handling reindex: '') s)))
     else
       (case incoming of
          None \<Rightarrow> (True, s)
        | Some [] \<Rightarrow> (True, s)
        | Some (first # others) \<Rightarrow>
            (let height = fork_height + of_nat (length outgoing);
                 (height1, s1) = pop_outgoing (rev outgoing) height s;
                 (height2, s2) = push_incoming (first # others) height1 s1
             in (True, set_top_header (header_hash (last (first # others)), height2) s2))))"

text \<open>
  \<^verbatim>\<open>for (const auto block: *outgoing)
    LOG_DEBUG(LOG_NODE) << "Reorganization moved block to pool [" << ... << "]";\<close>
\<close>

fun log_outgoing :: "block list \<Rightarrow> full_node \<Rightarrow> full_node" where
  "log_outgoing [] s = s"
| "log_outgoing (blk # rest) s =
     log_outgoing rest (emit (Log debug ''Reorganization moved block to pool []'') s)"

text \<open>\<open>full_node::handle_reorganized\<close>.\<close>

definition handle_reorganized ::
  "collaborators \<Rightarrow> code \<Rightarrow> size_t \<Rightarrow> block list option \<Rightarrow> block list \<Rightarrow> full_node
    \<Rightarrow> bool \<times> full_node" where
  "handle_reorganized c ec fork_height incoming outgoing s =
    (if p2p_stopped c \<or> ec = service_stopped then (False, s)
     else if ec \<noteq> success
     then (False, snd (stop c (emit (Log error ''Failure handling reorganization: '') s)))
     else
       (case incoming of
          None \<Rightarrow> (True, s)
        | Some [] \<Rightarrow> (True, s)
        | Some (first # others) \<Rightarrow>
            (let s1 = log_outgoing outgoing s;
                 height = fork_height + of_nat (length (first # others))
             in (True, set_top_block (block_hash (last (first # others)), height) s1))))"

section \<open>Configuration\<close>

text \<open>
  The network a settings object is built for (\<open>config::settings\<close>), and the two settings
  objects of which \<open>configuration::init\<close> assigns members. The node's, the blockchain's
  and the bitcoin settings are only constructed: each is modelled by the context it was
  constructed with.
\<close>

datatype config_settings = settings_mainnet | settings_testnet | settings_regtest

record database_settings =
  index_addresses :: bool

record network_settings =
  rotation_size :: nat
  inbound_connections :: nat
  outbound_connections :: nat
  host_pool_capacity :: nat
  services :: "64 word"

text \<open>
  The constructors \<open>database::settings(context)\<close> and \<open>network::settings(context)\<close> are
  the libraries': what they build for a context is a parameter.
\<close>

record library =
  new_database_settings :: "config_settings \<Rightarrow> database_settings"
  new_network_settings :: "config_settings \<Rightarrow> network_settings"

text \<open>
  \<open>configuration\<close>: the command line flags (\<open>help_option\<close> is the member \<open>help\<close>) and
  the five settings pointers, \<open>None\<close> for \<open>NULL\<close>.
\<close>

record configuration =
  help_option :: bool
  version :: bool
  settings :: bool
  initchain :: bool
  regtest :: bool
  testnet :: bool
  node :: "config_settings option"
  chain_settings :: "config_settings option"
  database :: "database_settings option"
  network :: "network_settings option"
  bitcoin :: "config_settings option"

text \<open>
  The service bits, as the comment in \<open>init\<close> gives them: full node (1) and witness (8).
\<close>

definition node_network :: "64 word" where
  "node_network = 1"

definition node_witness :: "64 word" where
  "node_witness = 8"

text \<open>\<open>configuration::init\<close>.\<close>

definition init :: "library \<Rightarrow> config_settings \<Rightarrow> configuration \<Rightarrow> configuration" where
  "init lib context cfg =
    (let cfg1 = cfg\<lparr>node := Some context,
                     chain_settings := Some context,
                     database := Some (new_database_settings lib context),
                     network := Some (new_network_settings lib context),
                     bitcoin := Some context\<rparr>;
         cfg2 = (case database cfg1 of
                   None \<Rightarrow> cfg1
                 | Some db \<Rightarrow> cfg1\<lparr>database := Some (db\<lparr>index_addresses := False\<rparr>)\<rparr>);
         cfg3 = (case network cfg2 of
                   None \<Rightarrow> cfg2
                 | Some net \<Rightarrow>
                     cfg2\<lparr>network := Some (net\<lparr>rotation_size := 10000000,
                                               inbound_connections := 100,
                                               outbound_connections := 8,
                                               host_pool_capacity := 10000,
                                               services := or node_network node_witness\<rparr>)\<rparr>)
     in cfg3)"

text \<open>
  The choice of the network in \<open>bc::main\<close>, after the command line has been parsed into
  the flags of \<open>configured\<close>.
\<close>

definition main_init :: "library \<Rightarrow> configuration \<Rightarrow> configuration" where
  "main_init lib cfg =
    (if \<not> regtest cfg \<and> \<not> testnet cfg then init lib settings_mainnet cfg
     else if testnet cfg then init lib settings_testnet cfg
     else init lib settings_regtest cfg)"

section \<open>The executor\<close>

text \<open>
  What the executor does to the outside: log lines and printed messages (by the name of
  the message macro, which \<open>executor.hpp\<close> defines), the registration of the signal
  handlers, the file system and database calls, and the calls on the node.
\<close>

datatype genesis = genesis_mainnet | genesis_testnet

datatype console_event =
    Console_log level string
  | Print string
  | Install_signal_handlers
  | Create_directories
  | Database_initialize genesis
  | Node_create
  | Node_start
  | Node_run
  | Node_stop
  | Node_close
  | Node_release

text \<open>
  The executor: the static flag \<open>stopped_\<close> that the signal handler and the completion
  handlers set, whether a \<open>shared_ptr\<close> owns the object, and what it has done so far.
\<close>

record executor =
  stopped' :: bool
  shared_owner :: bool
  console :: "console_event list"

text \<open>
  \<open>shared_from_this()\<close> gives a shared pointer to an object that a shared pointer owns
  and throws \<open>std::bad_weak_ptr\<close> otherwise.
\<close>

datatype thrown = bad_weak_ptr

definition shared_from_this :: "executor \<Rightarrow> thrown + unit" where
  "shared_from_this x = (if shared_owner x then Inr () else Inl bad_weak_ptr)"

text \<open>
  What the executor's surroundings answer during one run of the process:
  \<^item> \<open>configured\<close>, \<open>config_file_empty\<close>, \<open>use_testnet_rules\<close>: the parsed configuration;
  \<^item> \<open>create_directories_ok\<close>, \<open>create_directories_error\<close>, \<open>directory_found\<close>,
    \<open>exists_error\<close>: the results of the file system calls and their error values;
  \<^item> \<open>database_initialize_ok\<close>: the result of \<open>data_base::initialize\<close>;
  \<^item> \<open>start_completes\<close>, \<open>run_completes\<close>, \<open>stop_completes\<close>: the code with which the
    node's start, run and stop invoke the handler given to them;
  \<^item> \<open>stop_requested\<close>: by the number of polls made so far, whether a signal has set the
    flag or the node reports stopped.
\<close>

record environment =
  configured :: configuration
  config_file_empty :: bool
  create_directories_ok :: bool
  create_directories_error :: int
  use_testnet_rules :: bool
  database_initialize_ok :: bool
  directory_found :: bool
  exists_error :: int
  start_completes :: code
  run_completes :: code
  stop_completes :: code
  stop_requested :: "nat \<Rightarrow> bool"

definition no_interrupt :: int where
  "no_interrupt = 0"

definition directory_exists :: int where
  "directory_exists = 0"

definition directory_not_found :: int where
  "directory_not_found = 2"

text \<open>The executor's operations, in the order of \<open>executor.cpp\<close>.\<close>

definition say :: "console_event \<Rightarrow> executor \<Rightarrow> executor" where
  "say e x = x\<lparr>console := console x @ [e]\<rparr>"

definition initialize_interrupt :: "int \<Rightarrow> executor \<Rightarrow> executor" where
  "initialize_interrupt signal_code x =
    (let x1 = say Install_signal_handlers x in
     if signal_code = no_interrupt then say (Console_log info ''BN_NODE_INTERRUPT'') x1
     else if \<not> stopped' x1
     then (say (Console_log info ''BN_NODE_STOPPING'') x1)\<lparr>stopped' := True\<rparr>
     else x1)"

definition initialize_output :: "environment \<Rightarrow> executor \<Rightarrow> executor" where
  "initialize_output env x =
    (let x1 = say (Console_log debug ''BN_LOG_HEADER'') x;
         x2 = say (Console_log info ''BN_LOG_HEADER'') x1;
         x3 = say (Console_log warning ''BN_LOG_HEADER'') x2;
         x4 = say (Console_log error ''BN_LOG_HEADER'') x3;
         x5 = say (Console_log fatal ''BN_LOG_HEADER'') x4
     in if config_file_empty env then say (Console_log info ''BN_USING_DEFAULT_CONFIG'') x5
        else say (Console_log info ''BN_USING_CONFIG_FILE'') x5)"

definition do_help :: "executor \<Rightarrow> executor" where
  "do_help x = say (Print ''BN_INFORMATION_MESSAGE'') x"

definition do_settings :: "executor \<Rightarrow> executor" where
  "do_settings x = say (Print ''BN_SETTINGS_MESSAGE'') x"

definition do_version :: "executor \<Rightarrow> executor" where
  "do_version x = say (Print ''BN_VERSION_MESSAGE'') x"

definition do_initchain :: "environment \<Rightarrow> executor \<Rightarrow> bool \<times> executor" where
  "do_initchain env x =
    (let x1 = say Create_directories (initialize_output env x) in
     if create_directories_ok env
     then (database_initialize_ok env,
           say (Database_initialize
                  (if use_testnet_rules env then genesis_testnet else genesis_mainnet))
             (say (Console_log info ''BN_INITIALIZING_CHAIN'') x1))
     else if create_directories_error env = directory_exists
     then (False, say (Console_log error ''BN_INITCHAIN_EXISTS'') x1)
     else (False, say (Console_log error ''BN_INITCHAIN_NEW'') x1))"

text \<open>
  The completion handlers. The node's start and run are taken to invoke their handler
  before they return; \<open>handle_seeded\<close> calls the node's run on success, whose handler is
  \<open>handle_synchronized\<close>, bound to \<open>shared_from_this()\<close> before the call. A function
  that can throw returns \<open>Inl\<close> with what was thrown and the executor at that point.
\<close>

definition handle_synchronized :: "code \<Rightarrow> executor \<Rightarrow> executor" where
  "handle_synchronized ec x =
    (if ec \<noteq> success
     then (say (Console_log info ''BN_NODE_START_FAIL'') x)\<lparr>stopped' := True\<rparr>
     else say (Console_log info ''BN_NODE_SYNCHRONIZED'') x)"

definition handle_seeded ::
  "environment \<Rightarrow> code \<Rightarrow> executor \<Rightarrow> thrown \<times> executor + executor" where
  "handle_seeded env ec x =
    (if ec \<noteq> success
     then Inr ((say (Console_log error ''BN_NODE_START_FAIL'') x)\<lparr>stopped' := True\<rparr>)
     else
       (case shared_from_this x of
          Inl e \<Rightarrow> Inl (e, x)
        | Inr u \<Rightarrow>
            Inr (say (Console_log info ''BN_NODE_SEEDED'')
                  (handle_synchronized (run_completes env) (say Node_run x)))))"

definition verify :: "environment \<Rightarrow> executor \<Rightarrow> bool \<times> executor" where
  "verify env x =
    (if directory_found env then (True, x)
     else if exists_error env = directory_not_found
     then (False, say (Console_log error ''BN_UNINITIALIZED_CHAIN'') x)
     else (False, say (Console_log error ''BN_INITCHAIN_TRY'') x))"

text \<open>
  The loop of \<open>monitor_stop\<close>:
  \<^verbatim>\<open>while (!stopped_ && !node_->stopped())
    std::this_thread::sleep_for(stop_sensitivity);\<close>
  It polls until the flag is set or a stop is requested from outside, and may poll for
  ever: the result is the number of polls, or \<open>None\<close>.
\<close>

partial_function (option) await_stop :: "(nat \<Rightarrow> bool) \<Rightarrow> bool \<Rightarrow> nat \<Rightarrow> nat option" where
  "await_stop requested flag polls =
    (if \<not> flag \<and> \<not> requested polls then await_stop requested flag (Suc polls)
     else Some polls)"

text \<open>
  \<open>monitor_stop\<close> with \<open>handle_stopped\<close>: the node's stop invokes the handler, which
  fulfils the promise with the code; the result is that code.
\<close>

definition monitor_stop :: "environment \<Rightarrow> executor \<Rightarrow> (code \<times> executor) option" where
  "monitor_stop env x =
    (case await_stop (stop_requested env) (stopped' x) 0 of
       None \<Rightarrow> None
     | Some polls \<Rightarrow>
         Some (stop_completes env,
               say Node_release
                 (say Node_close
                   (say Node_stop (say (Console_log info ''BN_NODE_UNMAPPING'') x)))))"

text \<open>
  \<open>wait_on_stop\<close>: the handler given to \<open>monitor_stop\<close> is bound to
  \<open>shared_from_this()\<close> first. \<open>None\<close> is a wait that never ends.
\<close>

definition wait_on_stop ::
  "environment \<Rightarrow> executor \<Rightarrow> (thrown \<times> executor + bool \<times> executor) option" where
  "wait_on_stop env x =
    (case shared_from_this x of
       Inl e \<Rightarrow> Some (Inl (e, x))
     | Inr u \<Rightarrow>
         (case monitor_stop env x of
            None \<Rightarrow> None
          | Some (ec, x1) \<Rightarrow>
              if ec \<noteq> success
              then Some (Inr (False, say (Console_log error ''BN_NODE_STOP_FAIL'') x1))
              else Some (Inr (True, say (Console_log info ''BN_NODE_STOPPED'') x1))))"

text \<open>
  \<open>executor::run\<close>. The arguments of \<open>node_->start(std::bind(&executor::handle_seeded,
  shared_from_this(), _1))\<close> are evaluated before the call, so an executor that no
  shared pointer owns throws after the node is created and before its start is entered.
\<close>

definition executor_run ::
  "environment \<Rightarrow> executor \<Rightarrow> (thrown \<times> executor + bool \<times> executor) option" where
  "executor_run env x =
    (let x1 = initialize_interrupt no_interrupt (initialize_output env x);
         x2 = say (Console_log info ''BN_NODE_STARTING'') x1;
         (verified, x3) = verify env x2
     in if \<not> verified then Some (Inr (False, x3))
        else
          (let x4 = say Node_create x3 in
           case shared_from_this x4 of
             Inl e \<Rightarrow> Some (Inl (e, x4))
           | Inr u \<Rightarrow>
               (case handle_seeded env (start_completes env) (say Node_start x4) of
                  Inl escaped \<Rightarrow> Some (Inl escaped)
                | Inr x5 \<Rightarrow> wait_on_stop env (say (Console_log info ''BN_NODE_STARTED'') x5))))"

definition invoke ::
  "environment \<Rightarrow> executor \<Rightarrow> (thrown \<times> executor + bool \<times> executor) option" where
  "invoke env x =
    (if help_option (configured env) then Some (Inr (True, do_help x))
     else if settings (configured env) then Some (Inr (True, do_settings x))
     else if version (configured env) then Some (Inr (True, do_version x))
     else if initchain (configured env) then Some (Inr (do_initchain env x))
     else executor_run env x)"

text \<open>
  Modelled from the spec: \<open>executor::menu\<close>, which \<open>main\<close> calls, is not in the sources.
  Section 4.6 has the executor build the node, call start and wait for the stop; that is
  \<open>executor::invoke\<close> of the sources when no option is given, and the model takes menu
  to be invoke.
\<close>

definition menu ::
  "environment \<Rightarrow> executor \<Rightarrow> (thrown \<times> executor + bool \<times> executor) option" where
  "menu env x = invoke env x"

text \<open>
  Modelled from the spec: the enumeration \<open>console_result\<close> is declared outside the
  sources. Section 6 gives exit code 0 for success and a non-zero code for failure; the
  model takes \<open>- 1\<close> for the latter.
\<close>

definition console_result_okay :: int where
  "console_result_okay = 0"

definition console_result_failure :: int where
  "console_result_failure = - 1"

text \<open>
  How the process ends: it returns a status from \<open>main\<close>, or an exception leaves
  \<open>main\<close> and the process is aborted.
\<close>

datatype process_end = Exit_status int | Abort

text \<open>
  The end of \<open>bc::main\<close>, after the configuration is loaded:
  \<^verbatim>\<open>executor host(np, cin, cout, cerr);
int ret = host.menu() ? console_result::okay : console_result::failure;\<close>
  The executor is a local variable: no shared pointer owns it. The two lines stand after
  the \<open>try\<close> block of \<open>main\<close>, so what \<open>menu\<close> throws is not caught.
\<close>

definition main_exit :: "environment \<Rightarrow> (process_end \<times> executor) option" where
  "main_exit env =
    (let host = \<lparr>stopped' = False, shared_owner = False, console = []\<rparr> in
     case menu env host of
       None \<Rightarrow> None
     | Some (Inl (e, host')) \<Rightarrow> Some (Abort, host')
     | Some (Inr (ok, host')) \<Rightarrow>
         Some (Exit_status (if ok then console_result_okay else console_result_failure), host'))"

section \<open>Properties of shutdown\<close>

lemma trace_emit: "trace (emit e s) = trace s @ [e]"
  by (simp add: emit_def)

lemma top_block_emit: "top_block (emit e s) = top_block s"
  by (simp add: emit_def)

lemma top_header_emit: "top_header (emit e s) = top_header s"
  by (simp add: emit_def)

lemma reservations_emit: "reservations (emit e s) = reservations s"
  by (simp add: emit_def)

lemma stop_result: "fst (stop c s) = (p2p_stop_ok c \<and> chain_stop_ok c)"
  by (simp add: stop_def Let_def)

lemma stop_trace:
  "trace (snd (stop c s)) =
     trace s @ [P2p_stop, Chain_stop]
       @ (if p2p_stop_ok c then [] else [Log error ''Failed to stop network.''])
       @ (if chain_stop_ok c then [] else [Log error ''Failed to stop blockchain.''])"
  by (simp add: stop_def Let_def trace_emit)

lemma stop_frame:
  "top_block (snd (stop c s)) = top_block s"
  "top_header (snd (stop c s)) = top_header s"
  "reservations (snd (stop c s)) = reservations s"
  by (simp_all add: stop_def Let_def emit_def)

text \<open>
  Claim C7. Every call of stop calls the network's stop and then the chain's stop, whatever
  the first one answers, and returns the conjunction of the two results. Every call of
  close runs stop first; when stop fails, close returns false and its trace is the one of
  stop, so neither subsystem is closed; otherwise close calls the network's close and then
  the chain's close and returns the conjunction of their results.
\<close>

theorem stop_close_conjunction:
  "fst (stop c s) = (p2p_stop_ok c \<and> chain_stop_ok c)
   \<and> trace (snd (stop c s)) =
       trace s @ [P2p_stop, Chain_stop]
         @ (if p2p_stop_ok c then [] else [Log error ''Failed to stop network.''])
         @ (if chain_stop_ok c then [] else [Log error ''Failed to stop blockchain.''])
   \<and> (if fst (stop c s)
       then fst (close c s) = (p2p_close_ok c \<and> chain_close_ok c)
          \<and> trace (snd (close c s)) =
              trace (snd (stop c s)) @ [P2p_close, Chain_close]
                @ (if p2p_close_ok c then [] else [Log error ''Failed to close network.''])
                @ (if chain_close_ok c then [] else [Log error ''Failed to close blockchain.''])
       else close c s = (False, snd (stop c s)))"
proof -
  have closing: "fst (stop c s) \<Longrightarrow>
      fst (close c s) = (p2p_close_ok c \<and> chain_close_ok c)
      \<and> trace (snd (close c s)) =
          trace (snd (stop c s)) @ [P2p_close, Chain_close]
            @ (if p2p_close_ok c then [] else [Log error ''Failed to close network.''])
            @ (if chain_close_ok c then [] else [Log error ''Failed to close blockchain.''])"
    by (cases "stop c s") (simp add: close_def Let_def trace_emit)
  have refusing: "\<not> fst (stop c s) \<Longrightarrow> close c s = (False, snd (stop c s))"
    by (cases "stop c s") (simp add: close_def)
  from closing refusing show ?thesis
    by (simp add: stop_result stop_trace)
qed

section \<open>Reading a trace\<close>

text \<open>The events of a call: what the trace has gained between two states of the node.\<close>

definition events_since :: "full_node \<Rightarrow> full_node \<Rightarrow> event list" where
  "events_since s s' = drop (length (trace s)) (trace s')"

text \<open>The codes of the handler invocations in a trace, in order.\<close>

fun handler_codes :: "event list \<Rightarrow> code list" where
  "handler_codes [] = []"
| "handler_codes (Handler ec # es) = ec # handler_codes es"
| "handler_codes (e # es) = handler_codes es"

text \<open>The \<open>push_front\<close> calls in a trace, in order.\<close>

fun pushed_front :: "event list \<Rightarrow> (hash_digest \<times> size_t) list" where
  "pushed_front [] = []"
| "pushed_front (Push_front h n # es) = (h, n) # pushed_front es"
| "pushed_front (e # es) = pushed_front es"

lemma handler_codes_append: "handler_codes (es @ fs) = handler_codes es @ handler_codes fs"
  by (induction es rule: handler_codes.induct) simp_all


lemma pushed_front_append: "pushed_front (es @ fs) = pushed_front es @ pushed_front fs"
  by (induction es rule: pushed_front.induct) simp_all

lemma pushed_front_map_Handler: "pushed_front (map Handler cs) = []"
  by (induction cs) simp_all

text \<open>Concrete inputs on which the theorems below are instantiated.\<close>

definition idle_node :: full_node where
  "idle_node = \<lparr>top_block = (0, 0), top_header = (0, 0), reservations = [], trace = []\<rparr>"

definition sound_collaborators :: collaborators where
  "sound_collaborators =
     \<lparr>p2p_stopped = True, chain_start_ok = True, p2p_start_calls = [success],
      p2p_run_calls = [success],
      get_top = (\<lambda>candidate. if candidate then Some (7, 3) else Some (5, 1)),
      top_valid_height = 1,
      get_downloadable = (\<lambda>h. if h = 3 then Some 7 else None),
      p2p_stop_ok = True, chain_stop_ok = True, p2p_close_ok = True, chain_close_ok = True\<rparr>"

definition running_collaborators :: collaborators where
  "running_collaborators = sound_collaborators\<lparr>p2p_stopped := False\<rparr>"

definition corrupt_collaborators :: collaborators where
  "corrupt_collaborators = running_collaborators\<lparr>get_top := (\<lambda>candidate. None)\<rparr>"

section \<open>Properties of start\<close>







section \<open>Properties of run\<close>

lemma run_failed_get_top:
  assumes "\<not> p2p_stopped c" and "get_top c False = None \<or> get_top c True = None"
  shows "run c u s =
     (case get_top c False of
        None \<Rightarrow> emit (Handler operation_failed) (emit (Log error ''The block chain is corrupt.'') s)
      | Some confirmed \<Rightarrow>
          emit (Handler operation_failed)
            (emit (Log error ''The candidate chain is corrupt.'')
              (emit (Log info ''Top confirmed block height is ().'') (set_top_block confirmed s))))"
  using assms by (auto simp: run_def handle_running_def Let_def split: option.splits)

text \<open>
  Claim C4. In a call of run that gets as far as \<open>get_top\<close> (the node is not stopped) and
  in which \<open>get_top\<close> fails, for the confirmed or for the candidate chain, the handler is
  invoked once, with \<open>operation_failed\<close>; neither subscription is registered; the
  network's run is not called; no reservation is pushed and the queue is as it was.
\<close>

theorem run_corrupt_chain:
  assumes "\<not> p2p_stopped c" and "get_top c False = None \<or> get_top c True = None"
  shows "handler_codes (events_since s (run c u s)) = [operation_failed]
    \<and> Subscribe_headers \<notin> set (events_since s (run c u s))
    \<and> Subscribe_blocks \<notin> set (events_since s (run c u s))
    \<and> P2p_run \<notin> set (events_since s (run c u s))
    \<and> pushed_front (events_since s (run c u s)) = []
    \<and> reservations (run c u s) = reservations s"
  unfolding run_failed_get_top [OF assms]
  by (cases "get_top c False")
     (simp_all add: events_since_def trace_emit reservations_emit set_top_block_def)

theorem run_corrupt_chain_witness:
  "\<not> p2p_stopped corrupt_collaborators
   \<and> get_top corrupt_collaborators False = None
   \<and> trace (run corrupt_collaborators 0 idle_node) =
       [Log error ''The block chain is corrupt.'', Handler operation_failed]
   \<and> handler_codes (events_since idle_node (run corrupt_collaborators 0 idle_node))
       = [operation_failed]
   \<and> reservations (run corrupt_collaborators 0 idle_node) = reservations idle_node"
  using run_corrupt_chain [where c = corrupt_collaborators and u = 0 and s = idle_node]
  by (simp add: corrupt_collaborators_def running_collaborators_def sound_collaborators_def
      idle_node_def run_def handle_running_def emit_def)

section \<open>Properties of the reorganization handlers\<close>

text \<open>
  Claim C6. A handler given a code other than success returns false. When the node is
  stopped or the code is \<open>service_stopped\<close> the node is left as it was: nothing is logged
  and stop is not called. For every other code the handler writes its log line and calls
  stop, which stops the network and then the chain.
\<close>

theorem handlers_unsubscribe_on_error:
  assumes "ec \<noteq> success"
  shows "fst (handle_reindexed c ec fork_height headers_in headers_out s) = False
    \<and> fst (handle_reorganized c ec fork_height blocks_in blocks_out s) = False
    \<and> snd (handle_reindexed c ec fork_height headers_in headers_out s) =
        (if p2p_stopped c \<or> ec = service_stopped then s
         else snd (stop c (emit (Log error ''Failure handling reindex: '') s)))
    \<and> snd (handle_reorganized c ec fork_height blocks_in blocks_out s) =
        (if p2p_stopped c \<or> ec = service_stopped then s
         else snd (stop c (emit (Log error ''Failure handling reorganization: '') s)))
    \<and> events_since s (snd (handle_reindexed c ec fork_height headers_in headers_out s)) =
        (if p2p_stopped c \<or> ec = service_stopped then []
         else [Log error ''Failure handling reindex: '', P2p_stop, Chain_stop]
           @ (if p2p_stop_ok c then [] else [Log error ''Failed to stop network.''])
           @ (if chain_stop_ok c then [] else [Log error ''Failed to stop blockchain.'']))
    \<and> events_since s (snd (handle_reorganized c ec fork_height blocks_in blocks_out s)) =
        (if p2p_stopped c \<or> ec = service_stopped then []
         else [Log error ''Failure handling reorganization: '', P2p_stop, Chain_stop]
           @ (if p2p_stop_ok c then [] else [Log error ''Failed to stop network.''])
           @ (if chain_stop_ok c then [] else [Log error ''Failed to stop blockchain.'']))"
  using assms
  by (simp add: handle_reindexed_def handle_reorganized_def events_since_def stop_trace trace_emit)

theorem handlers_unsubscribe_on_error_witness:
  "other_error 5 \<noteq> success
   \<and> handle_reindexed running_collaborators (other_error 5) 100 None [] idle_node =
       (False, idle_node\<lparr>trace := [Log error ''Failure handling reindex: '', P2p_stop, Chain_stop]\<rparr>)
   \<and> events_since idle_node
        (snd (handle_reorganized running_collaborators (other_error 5) 100 None [] idle_node)) =
       [Log error ''Failure handling reorganization: '', P2p_stop, Chain_stop]
   \<and> handle_reorganized sound_collaborators (other_error 5) 100 None [] idle_node
       = (False, idle_node)
   \<and> handle_reindexed running_collaborators service_stopped 100 None [] idle_node
       = (False, idle_node)"
  using handlers_unsubscribe_on_error [where ec = "other_error 5" and c = running_collaborators
      and fork_height = 100 and headers_in = None and headers_out = "[]" and blocks_in = None
      and blocks_out = "[]" and s = idle_node]
  by (simp add: handle_reindexed_def handle_reorganized_def running_collaborators_def
      sound_collaborators_def stop_def emit_def idle_node_def)

lemma log_outgoing_frame:
  "top_block (log_outgoing bs s) = top_block s"
  "top_header (log_outgoing bs s) = top_header s"
  "reservations (log_outgoing bs s) = reservations s"
  by (induction bs arbitrary: s) (simp_all add: emit_def)

lemma log_outgoing_trace:
  "trace (log_outgoing bs s) =
     trace s @ replicate (length bs) (Log debug ''Reorganization moved block to pool []'')"
  by (induction bs arbitrary: s) (simp_all add: trace_emit replicate_append_same)


text \<open>
  A stopped node contradicts claim C5 as it is stated: the handler tests \<open>stopped()\<close>
  before anything else, so on a stopped node a call with the success code returns false
  and leaves the cached confirmed top alone, whether \<open>incoming\<close> is empty or not.
\<close>

theorem reorganized_on_stopped_node_counterexample:
  "p2p_stopped sound_collaborators
   \<and> handle_reorganized sound_collaborators success 100 (Some [\<lparr>block_hash = 9\<rparr>]) [] idle_node
       = (False, idle_node)
   \<and> top_block idle_node \<noteq> (9, 101)
   \<and> fst (handle_reorganized sound_collaborators success 100 (Some []) [] idle_node) = False"
  by (simp add: handle_reorganized_def sound_collaborators_def idle_node_def)

text \<open>
  Claim C5, amended. On a node that is not stopped, a call of \<open>handle_reorganized\<close> with
  the success code and a non-empty \<open>incoming\<close> returns true and sets the cached confirmed
  top to the hash of the last incoming block at height fork height plus the number of
  incoming blocks; the reservations and the cached candidate top are as before, and the
  events are the debug lines for the outgoing blocks. With an empty or a null \<open>incoming\<close>
  the call returns true and the node is unchanged.
\<close>

theorem reorganized_updates_confirmed_top:
  assumes "\<not> p2p_stopped c"
  shows "(blocks_in \<noteq> [] \<longrightarrow>
        fst (handle_reorganized c success fork_height (Some blocks_in) blocks_out s)
      \<and> top_block (snd (handle_reorganized c success fork_height (Some blocks_in) blocks_out s))
          = (block_hash (last blocks_in), fork_height + of_nat (length blocks_in))
      \<and> reservations (snd (handle_reorganized c success fork_height (Some blocks_in) blocks_out s))
          = reservations s
      \<and> top_header (snd (handle_reorganized c success fork_height (Some blocks_in) blocks_out s))
          = top_header s
      \<and> events_since s (snd (handle_reorganized c success fork_height (Some blocks_in) blocks_out s))
          = replicate (length blocks_out) (Log debug ''Reorganization moved block to pool []''))
    \<and> handle_reorganized c success fork_height (Some []) blocks_out s = (True, s)
    \<and> handle_reorganized c success fork_height None blocks_out s = (True, s)"
  using assms
  by (cases blocks_in)
     (simp_all add: handle_reorganized_def Let_def set_top_block_def log_outgoing_frame
        log_outgoing_trace events_since_def)

theorem reorganized_updates_confirmed_top_witness:
  "\<not> p2p_stopped running_collaborators
   \<and> handle_reorganized running_collaborators success 100 (Some [\<lparr>block_hash = 9\<rparr>]) [] idle_node
       = (True, idle_node\<lparr>top_block := (9, 101)\<rparr>)
   \<and> handle_reorganized running_collaborators success 100 (Some []) [] idle_node = (True, idle_node)"
  using reorganized_updates_confirmed_top [where c = running_collaborators and fork_height = 100
      and blocks_in = "[\<lparr>block_hash = 9\<rparr>]" and blocks_out = "[]" and s = idle_node]
  by (simp add: handle_reorganized_def running_collaborators_def sound_collaborators_def
      idle_node_def set_top_block_def)


lemma pop_outgoing_height: "fst (pop_outgoing hs height s) = height - of_nat (length hs)"
  by (induction hs arbitrary: height s) simp_all

lemma pop_outgoing_trace:
  "trace (snd (pop_outgoing hs height s)) =
     trace s @ map (\<lambda>(i, hdr). Pop_back hdr (height - of_nat i)) (enumerate 0 hs)"
proof (induction hs arbitrary: height s)
  case Nil
  then show ?case by simp
next
  case (Cons hdr rest)
  have "map (\<lambda>(i, hdr). Pop_back hdr (height - of_nat i)) (enumerate (Suc 0) rest)
      = map (\<lambda>(i, hdr). Pop_back hdr (height - 1 - of_nat i)) (enumerate 0 rest)"
    by (simp add: enumerate_Suc_eq split_def)
  with Cons show ?case
    by (simp add: pop_back_def trace_emit)
qed

lemma pop_outgoing_top_header: "top_header (snd (pop_outgoing hs height s)) = top_header s"
  by (induction hs arbitrary: height s) (simp_all add: pop_back_def emit_def)

lemma push_incoming_height: "fst (push_incoming hs height s) = height + of_nat (length hs)"
  by (induction hs arbitrary: height s) simp_all

lemma push_incoming_trace:
  "trace (snd (push_incoming hs height s)) =
     trace s @ map (\<lambda>(i, hdr). Push_back hdr (height + 1 + of_nat i)) (enumerate 0 hs)"
proof (induction hs arbitrary: height s)
  case Nil
  then show ?case by simp
next
  case (Cons hdr rest)
  have "map (\<lambda>(i, hdr). Push_back hdr (height + 1 + of_nat i)) (enumerate (Suc 0) rest)
      = map (\<lambda>(i, hdr). Push_back hdr (height + 1 + 1 + of_nat i)) (enumerate 0 rest)"
    by (simp add: enumerate_Suc_eq split_def add.assoc)
  with Cons show ?case
    by (simp add: push_back_def trace_emit)
qed

lemma push_incoming_reservations:
  "reservations (snd (push_incoming hs height s)) =
     reservations s @ map (\<lambda>(i, hdr). (header_hash hdr, height + 1 + of_nat i)) (enumerate 0 hs)"
proof (induction hs arbitrary: height s)
  case Nil
  then show ?case by simp
next
  case (Cons hdr rest)
  have "map (\<lambda>(i, hdr). (header_hash hdr, height + 1 + of_nat i)) (enumerate (Suc 0) rest)
      = map (\<lambda>(i, hdr). (header_hash hdr, height + 1 + 1 + of_nat i)) (enumerate 0 rest)"
    by (simp add: enumerate_Suc_eq split_def add.assoc)
  with Cons show ?case
    by (simp add: push_back_def queue_push_back_def emit_def)
qed

lemma push_incoming_top_header: "top_header (snd (push_incoming hs height s)) = top_header s"
  by (induction hs arbitrary: height s) (simp_all add: push_back_def emit_def)

lemma push_incoming_last:
  assumes "hs \<noteq> []"
  shows "reservations (snd (push_incoming hs height s)) \<noteq> []"
    and "last (reservations (snd (push_incoming hs height s)))
          = (header_hash (last hs), height + of_nat (length hs))"
proof -
  obtain front hdr where "hs = front @ [hdr]"
    using assms by (cases hs rule: rev_cases) auto
  then show "reservations (snd (push_incoming hs height s)) \<noteq> []"
    and "last (reservations (snd (push_incoming hs height s)))
          = (header_hash (last hs), height + of_nat (length hs))"
    by (simp_all add: push_incoming_reservations enumerate_append_eq add.assoc)
qed

lemma handle_reindexed_success:
  assumes "\<not> p2p_stopped c" and "headers_in \<noteq> []"
  shows "handle_reindexed c success fork_height (Some headers_in) headers_out s =
     (True,
      set_top_header (header_hash (last headers_in), fork_height + of_nat (length headers_in))
        (snd (push_incoming headers_in fork_height
           (snd (pop_outgoing (rev headers_out) (fork_height + of_nat (length headers_out)) s)))))"
proof -
  obtain first others where "headers_in = first # others"
    using assms(2) by (cases headers_in) auto
  moreover have "fst (pop_outgoing (rev headers_out) (fork_height + of_nat (length headers_out)) s)
      = fork_height"
    by (simp add: pop_outgoing_height)
  ultimately show ?thesis
    using assms(1) push_incoming_height [of headers_in fork_height]
    by (simp add: handle_reindexed_def Let_def split_beta del: push_incoming.simps)
qed


text \<open>
  A stopped node contradicts claim C1 as it is stated: on it a call with the success code
  and a non-empty \<open>incoming\<close> returns false before any reservation is touched; the queue
  stays empty here and the cached candidate top is not set.
\<close>

theorem reindexed_on_stopped_node_counterexample:
  "p2p_stopped sound_collaborators
   \<and> handle_reindexed sound_collaborators success 100 (Some [\<lparr>header_hash = 9\<rparr>]) [] idle_node
       = (False, idle_node)
   \<and> reservations idle_node = []
   \<and> top_header idle_node \<noteq> (9, 101)"
  by (simp add: handle_reindexed_def sound_collaborators_def idle_node_def)

text \<open>
  Claim C1, amended. On a node that is not stopped, a call of \<open>handle_reindexed\<close> with the
  success code and a non-empty \<open>incoming\<close> stays subscribed and makes these calls on the
  reservations, in this order and no others: \<open>pop_back\<close> for the outgoing headers from the
  last to the first, at heights descending from fork height plus the number of outgoing
  headers; then \<open>push_back\<close> for the incoming headers from the first to the last, at
  heights ascending from fork height plus one. Afterwards the tail of the queue and the
  cached candidate top are both the hash of the last incoming header at height fork
  height plus the number of incoming headers (in \<open>size_t\<close> arithmetic).
\<close>

theorem reindexed_pops_then_pushes:
  assumes "\<not> p2p_stopped c" and "headers_in \<noteq> []"
  shows "fst (handle_reindexed c success fork_height (Some headers_in) headers_out s)
    \<and> events_since s (snd (handle_reindexed c success fork_height (Some headers_in) headers_out s))
        = map (\<lambda>(i, hdr). Pop_back hdr (fork_height + of_nat (length headers_out) - of_nat i))
            (enumerate 0 (rev headers_out))
          @ map (\<lambda>(i, hdr). Push_back hdr (fork_height + 1 + of_nat i)) (enumerate 0 headers_in)
    \<and> reservations (snd (handle_reindexed c success fork_height (Some headers_in) headers_out s))
        \<noteq> []
    \<and> last (reservations
          (snd (handle_reindexed c success fork_height (Some headers_in) headers_out s)))
        = (header_hash (last headers_in), fork_height + of_nat (length headers_in))
    \<and> top_header (snd (handle_reindexed c success fork_height (Some headers_in) headers_out s))
        = (header_hash (last headers_in), fork_height + of_nat (length headers_in))"
  unfolding handle_reindexed_success [OF assms]
  using push_incoming_last [OF assms(2)]
  by (simp add: set_top_header_def events_since_def push_incoming_trace pop_outgoing_trace)

theorem reindexed_pops_then_pushes_witness:
  "\<not> p2p_stopped running_collaborators
   \<and> [\<lparr>header_hash = 21\<rparr>, \<lparr>header_hash = 22\<rparr>, \<lparr>header_hash = 23\<rparr>] \<noteq> []
   \<and> events_since (idle_node\<lparr>reservations := [(11, 199), (12, 200)]\<rparr>)
        (snd (handle_reindexed running_collaborators success 198
           (Some [\<lparr>header_hash = 21\<rparr>, \<lparr>header_hash = 22\<rparr>, \<lparr>header_hash = 23\<rparr>])
           [\<lparr>header_hash = 11\<rparr>, \<lparr>header_hash = 12\<rparr>]
           (idle_node\<lparr>reservations := [(11, 199), (12, 200)]\<rparr>)))
       = [Pop_back \<lparr>header_hash = 12\<rparr> 200, Pop_back \<lparr>header_hash = 11\<rparr> 199,
          Push_back \<lparr>header_hash = 21\<rparr> 199, Push_back \<lparr>header_hash = 22\<rparr> 200,
          Push_back \<lparr>header_hash = 23\<rparr> 201]
   \<and> reservations
        (snd (handle_reindexed running_collaborators success 198
           (Some [\<lparr>header_hash = 21\<rparr>, \<lparr>header_hash = 22\<rparr>, \<lparr>header_hash = 23\<rparr>])
           [\<lparr>header_hash = 11\<rparr>, \<lparr>header_hash = 12\<rparr>]
           (idle_node\<lparr>reservations := [(11, 199), (12, 200)]\<rparr>)))
       = [(21, 199), (22, 200), (23, 201)]
   \<and> top_header
        (snd (handle_reindexed running_collaborators success 198
           (Some [\<lparr>header_hash = 21\<rparr>, \<lparr>header_hash = 22\<rparr>, \<lparr>header_hash = 23\<rparr>])
           [\<lparr>header_hash = 11\<rparr>, \<lparr>header_hash = 12\<rparr>]
           (idle_node\<lparr>reservations := [(11, 199), (12, 200)]\<rparr>)))
       = (23, 201)"
  using reindexed_pops_then_pushes [where c = running_collaborators and fork_height = 198
      and headers_in = "[\<lparr>header_hash = 21\<rparr>, \<lparr>header_hash = 22\<rparr>, \<lparr>header_hash = 23\<rparr>]"
      and headers_out = "[\<lparr>header_hash = 11\<rparr>, \<lparr>header_hash = 12\<rparr>]"
      and s = "idle_node\<lparr>reservations := [(11, 199), (12, 200)]\<rparr>"]
  by (simp add: handle_reindexed_def running_collaborators_def sound_collaborators_def
      idle_node_def events_since_def set_top_header_def push_back_def pop_back_def emit_def
      queue_push_back_def queue_pop_back_def)

section \<open>Seeding the reservations\<close>

lemma word_le_pred:
  fixes h n :: "'a::len word"
  assumes "h \<noteq> 0"
  shows "n \<le> h \<longleftrightarrow> n = h \<or> n \<le> h - 1"
proof -
  have "0 < unat h"
    using assms by (simp add: unat_gt_0)
  then show ?thesis
    using assms by (auto simp: word_le_nat_alt unat_minus_one word_unat_eq_iff)
qed

lemma word_pred_less:
  fixes h n :: "'a::len word"
  assumes "h \<noteq> 0" and "n \<le> h - 1"
  shows "n < h"
proof -
  have "0 < unat h"
    using assms(1) by (simp add: unat_gt_0)
  then show ?thesis
    using assms by (simp add: word_le_nat_alt word_less_nat_alt unat_minus_one)
qed

lemma pushed_front_map_Push_front: "pushed_front (map (\<lambda>(x, n). Push_front x n) ps) = ps"
  by (induction ps) auto

text \<open>
  The heights the seeding loop pushes when started at \<open>height\<close>: those above the top valid
  height that are downloadable or just above the top valid height.
\<close>

definition seeded_heights :: "collaborators \<Rightarrow> size_t \<Rightarrow> size_t \<Rightarrow> size_t set" where
  "seeded_heights c top_valid height =
     {n. top_valid < n \<and> n \<le> height \<and> (get_downloadable c n \<noteq> None \<or> n = top_valid + 1)}"

lemma seeded_heights_done: "\<not> top_valid < height \<Longrightarrow> seeded_heights c top_valid height = {}"
  by (auto simp: seeded_heights_def)

lemma seeded_heights_step:
  assumes "top_valid < height"
  shows "seeded_heights c top_valid height =
    (if get_downloadable c height \<noteq> None \<or> height = top_valid + 1
     then insert height (seeded_heights c top_valid (height - 1))
     else seeded_heights c top_valid (height - 1))"
proof -
  have "height \<noteq> 0"
    using assms by (auto simp: word_less_nat_alt)
  then show ?thesis
    using assms by (auto simp: seeded_heights_def word_le_pred [of height])
qed

lemma seeded_heights_below:
  assumes "top_valid < height" and "n \<in> seeded_heights c top_valid (height - 1)"
  shows "n < height"
proof -
  have "height \<noteq> 0"
    using assms(1) by (auto simp: word_less_nat_alt)
  then show ?thesis
    using assms(2) by (simp add: seeded_heights_def word_pred_less)
qed

lemma scan_header_index_pushes:
  assumes "start_height = top_valid + 1"
  shows "\<exists>ps. trace (scan_header_index c top_valid start_height height hash s)
          = trace s @ map (\<lambda>(x, n). Push_front x n) ps
      \<and> reservations (scan_header_index c top_valid start_height height hash s)
          = rev ps @ reservations s
      \<and> set (map snd ps) = seeded_heights c top_valid height
      \<and> sorted_wrt (\<lambda>a b. b < a) (map snd ps)"
  using assms
proof (induction c top_valid start_height height hash s rule: scan_header_index.induct)
  case (1 c top_valid start_height height hash s)
  show ?case
  proof (cases "top_valid < height")
    case False
    then show ?thesis
      by (simp add: scan_header_index.simps seeded_heights_done)
  next
    case above: True
    show ?thesis
    proof (cases "get_downloadable c height")
      case (Some found)
      have step: "scan_header_index c top_valid start_height height hash s
          = scan_header_index c top_valid start_height (height - 1) found
              (push_front found height s)"
        using above Some by (simp add: scan_header_index.simps [of c top_valid start_height height])
      from "1.IH"(2) [OF above Some "1.prems"] obtain ps where
        ps: "trace (scan_header_index c top_valid start_height (height - 1) found
                 (push_front found height s))
              = trace (push_front found height s) @ map (\<lambda>(x, n). Push_front x n) ps"
          "reservations (scan_header_index c top_valid start_height (height - 1) found
                 (push_front found height s))
              = rev ps @ reservations (push_front found height s)"
          "set (map snd ps) = seeded_heights c top_valid (height - 1)"
          "sorted_wrt (\<lambda>a b. b < a) (map snd ps)"
        by blast
      have "\<forall>n\<in>set (map snd ps). n < height"
        using ps(3) seeded_heights_below [OF above] by blast
      with ps Some show ?thesis
        unfolding step seeded_heights_step [OF above]
        by (intro exI [of _ "(found, height) # ps"])
           (simp add: push_front_def queue_push_front_def emit_def)
    next
      case None
      let ?s = "if height = start_height then push_front hash height s else s"
      have step: "scan_header_index c top_valid start_height height hash s
          = scan_header_index c top_valid start_height (height - 1) hash ?s"
        using above None by (simp add: scan_header_index.simps [of c top_valid start_height height])
      from "1.IH"(1) [OF above None "1.prems"] obtain ps where
        ps: "trace (scan_header_index c top_valid start_height (height - 1) hash ?s)
              = trace ?s @ map (\<lambda>(x, n). Push_front x n) ps"
          "reservations (scan_header_index c top_valid start_height (height - 1) hash ?s)
              = rev ps @ reservations ?s"
          "set (map snd ps) = seeded_heights c top_valid (height - 1)"
          "sorted_wrt (\<lambda>a b. b < a) (map snd ps)"
        by blast
      have below: "\<forall>n\<in>set (map snd ps). n < height"
        using ps(3) seeded_heights_below [OF above] by blast
      show ?thesis
      proof (cases "height = start_height")
        case True
        with ps below None "1.prems" show ?thesis
          unfolding step seeded_heights_step [OF above]
          by (intro exI [of _ "(hash, height) # ps"])
             (simp add: push_front_def queue_push_front_def emit_def)
      next
        case False
        with ps None "1.prems" show ?thesis
          unfolding step seeded_heights_step [OF above]
          by (intro exI [of _ ps]) simp
      qed
    qed
  qed
qed


lemma run_success:
  assumes "\<not> p2p_stopped c" and "get_top c False = Some confirmed"
    and "get_top c True = Some candidate"
  shows "run c u s =
    p2p_run c
      (emit Subscribe_blocks
        (emit Subscribe_headers
          (emit (Log info ''Pending block downloads ().'')
            (scan_header_index c (top_valid_height c) (top_valid_height c + 1) (snd candidate) u
              (emit (Log info ''Top valid candidate block height ().'')
                (emit (Log info ''Top candidate block height is ().'')
                  (set_top_header candidate
                    (emit (Log info ''Top confirmed block height is ().'')
                      (set_top_block confirmed s)))))))))"
  using assms by (simp add: run_def handle_running_def Let_def)

lemma run_seeding:
  assumes "\<not> p2p_stopped c" and "get_top c False = Some confirmed"
    and "get_top c True = Some candidate"
  shows "\<exists>ps. events_since s (run c u s)
          = [Log info ''Top confirmed block height is ().'',
             Log info ''Top candidate block height is ().'',
             Log info ''Top valid candidate block height ().'']
            @ map (\<lambda>(x, n). Push_front x n) ps
            @ [Log info ''Pending block downloads ().'', Subscribe_headers, Subscribe_blocks,
               P2p_run]
            @ map Handler (p2p_run_calls c)
      \<and> reservations (run c u s) = rev ps @ reservations s
      \<and> set (map snd ps) = seeded_heights c (top_valid_height c) (snd candidate)
      \<and> sorted_wrt (\<lambda>a b. b < a) (map snd ps)"
proof -
  let ?s3 = "emit (Log info ''Top valid candidate block height ().'')
               (emit (Log info ''Top candidate block height is ().'')
                 (set_top_header candidate
                   (emit (Log info ''Top confirmed block height is ().'')
                     (set_top_block confirmed s))))"
  from scan_header_index_pushes [OF refl, of c "top_valid_height c" "snd candidate" u ?s3]
  obtain ps where
    ps: "trace (scan_header_index c (top_valid_height c) (top_valid_height c + 1)
                 (snd candidate) u ?s3)
          = trace ?s3 @ map (\<lambda>(x, n). Push_front x n) ps"
      "reservations (scan_header_index c (top_valid_height c) (top_valid_height c + 1)
                 (snd candidate) u ?s3)
          = rev ps @ reservations ?s3"
      "set (map snd ps) = seeded_heights c (top_valid_height c) (snd candidate)"
      "sorted_wrt (\<lambda>a b. b < a) (map snd ps)"
    by blast
  show ?thesis
    unfolding run_success [OF assms]
    using ps
    by (intro exI [of _ ps])
       (simp add: events_since_def p2p_run_def emit_def set_top_header_def set_top_block_def)
qed



text \<open>A chain whose candidate top is the top valid block, as after a cold start.\<close>

definition synced_collaborators :: collaborators where
  "synced_collaborators =
     running_collaborators\<lparr>get_top := (\<lambda>candidate. Some (5, 0)), top_valid_height := 0,
       get_downloadable := (\<lambda>h. None)\<rparr>"

text \<open>
  A candidate chain of height 0 with top valid height 0 contradicts claim C8 as it is
  stated: the loop condition \<open>height > top_valid\<close> is false at once, the run succeeds,
  nothing is pushed and the queue has no reservation at height 1.
\<close>

theorem run_on_synced_chain_counterexample:
  "\<not> p2p_stopped synced_collaborators
   \<and> get_top synced_collaborators True = Some (5, 0)
   \<and> top_valid_height synced_collaborators = 0
   \<and> reservations (run synced_collaborators 0 idle_node) = []
   \<and> pushed_front (trace (run synced_collaborators 0 idle_node)) = []
   \<and> handler_codes (trace (run synced_collaborators 0 idle_node)) = [success]"
  by (simp add: synced_collaborators_def running_collaborators_def sound_collaborators_def
      idle_node_def run_def handle_running_def scan_header_index.simps emit_def
      set_top_block_def set_top_header_def p2p_run_def Let_def)

text \<open>
  Claim C8, amended. When the candidate height is above the top valid height, a run that
  succeeds pushes a reservation at top valid plus one, and the queue holds one at that
  height afterwards.
\<close>

theorem run_seeds_start_height:
  assumes "\<not> p2p_stopped c" and "get_top c False = Some confirmed"
    and "get_top c True = Some candidate" and "top_valid_height c < snd candidate"
  shows "top_valid_height c + 1 \<in> snd ` set (pushed_front (events_since s (run c u s)))
    \<and> top_valid_height c + 1 \<in> snd ` set (reservations (run c u s))"
proof -
  from run_seeding [OF assms(1-3), of s u] obtain ps where
    events: "events_since s (run c u s)
          = [Log info ''Top confirmed block height is ().'',
             Log info ''Top candidate block height is ().'',
             Log info ''Top valid candidate block height ().'']
            @ map (\<lambda>(x, n). Push_front x n) ps
            @ [Log info ''Pending block downloads ().'', Subscribe_headers, Subscribe_blocks,
               P2p_run]
            @ map Handler (p2p_run_calls c)"
    and queue: "reservations (run c u s) = rev ps @ reservations s"
    and heights: "set (map snd ps) = seeded_heights c (top_valid_height c) (snd candidate)"
    by blast
  have "top_valid_height c < top_valid_height c + 1"
    using assms(4) by uint_arith
  moreover have "top_valid_height c + 1 \<le> snd candidate"
    using assms(4) by (rule inc_le)
  ultimately have "top_valid_height c + 1 \<in> seeded_heights c (top_valid_height c) (snd candidate)"
    by (simp add: seeded_heights_def)
  with heights have "top_valid_height c + 1 \<in> set (map snd ps)"
    by simp
  then show ?thesis
    by (simp add: events queue pushed_front_append pushed_front_map_Push_front
        pushed_front_map_Handler image_Un)
qed

theorem run_seeds_start_height_witness:
  "\<not> p2p_stopped running_collaborators
   \<and> get_top running_collaborators False = Some (5, 1)
   \<and> get_top running_collaborators True = Some (7, 3)
   \<and> top_valid_height running_collaborators < snd (7 :: hash_digest, 3 :: size_t)
   \<and> reservations (run running_collaborators 0 idle_node) = [(7, 2), (7, 3)]
   \<and> top_valid_height running_collaborators + 1
       \<in> snd ` set (reservations (run running_collaborators 0 idle_node))"
  using run_seeds_start_height [where c = running_collaborators and confirmed = "(5, 1)"
      and candidate = "(7, 3)" and s = idle_node and u = 0]
  by (simp add: running_collaborators_def sound_collaborators_def idle_node_def run_def
      handle_running_def scan_header_index.simps events_since_def emit_def push_front_def
      queue_push_front_def set_top_block_def set_top_header_def p2p_run_def Let_def)

section \<open>Properties of the configuration\<close>

text \<open>
  Claim C10. Whatever the two flags are, \<open>main\<close> initializes the configuration once, for
  one network: testnet when the testnet flag is set (also when the regtest flag is set
  too), otherwise regtest when the regtest flag is set, otherwise mainnet. All five
  settings objects are built for that network.
\<close>

theorem main_init_one_network:
  "main_init lib cfg =
     init lib (if testnet cfg then settings_testnet
               else if regtest cfg then settings_regtest
               else settings_mainnet) cfg
   \<and> node (main_init lib cfg) =
       Some (if testnet cfg then settings_testnet
             else if regtest cfg then settings_regtest
             else settings_mainnet)
   \<and> chain_settings (main_init lib cfg) = node (main_init lib cfg)
   \<and> bitcoin (main_init lib cfg) = node (main_init lib cfg)
   \<and> database (main_init lib cfg) =
       Some ((new_database_settings lib
               (if testnet cfg then settings_testnet
                else if regtest cfg then settings_regtest
                else settings_mainnet))\<lparr>index_addresses := False\<rparr>)
   \<and> network (main_init lib cfg) =
       Some ((new_network_settings lib
               (if testnet cfg then settings_testnet
                else if regtest cfg then settings_regtest
                else settings_mainnet))
             \<lparr>rotation_size := 10000000, inbound_connections := 100, outbound_connections := 8,
              host_pool_capacity := 10000, services := 9\<rparr>)"
  by (simp add: main_init_def init_def Let_def node_network_def node_witness_def)

section \<open>Properties of the executor\<close>



lemma await_stop_flag: "await_stop requested True polls = Some polls"
  by (simp add: await_stop.simps)

lemma console_say: "console (say e x) = console x @ [e]"
  by (simp add: say_def)

lemma stopped_say: "stopped' (say e x) = stopped' x"
  by (simp add: say_def)

lemma shared_owner_say: "shared_owner (say e x) = shared_owner x"
  by (simp add: say_def)

lemma shared_owner_initialize:
  "shared_owner (initialize_interrupt no_interrupt (initialize_output env x)) = shared_owner x"
  by (simp add: initialize_interrupt_def initialize_output_def Let_def shared_owner_say)

text \<open>
  Whatever the node would answer, a process that runs the node is aborted once the node
  is created: the node's start is not entered.
\<close>

lemma main_exit_aborts:
  assumes "\<not> help_option (configured env)" and "\<not> settings (configured env)"
    and "\<not> version (configured env)" and "\<not> initchain (configured env)"
    and "directory_found env"
  shows "\<exists>host'. main_exit env = Some (Abort, host')
      \<and> last (console host') = Node_create
      \<and> Node_start \<notin> set (console host')
      \<and> Console_log error ''BN_NODE_START_FAIL'' \<notin> set (console host')"
  using assms
  by (simp add: main_exit_def menu_def invoke_def executor_run_def verify_def
      shared_from_this_def shared_owner_say shared_owner_initialize console_say
      initialize_interrupt_def initialize_output_def no_interrupt_def Let_def)

text \<open>
  An executor that a shared pointer owns gets as far as the handlers. When the node's
  start completes with a failure code, \<open>handle_seeded\<close> logs the error and sets the flag,
  and \<open>run\<close> returns what the stop that follows gives: true when it succeeds.
\<close>

lemma owned_run_after_failed_start:
  assumes "shared_owner x" and "directory_found env" and "start_completes env \<noteq> success"
  shows "\<exists>x'. executor_run env x = Some (Inr (stop_completes env = success, x'))
      \<and> drop (length (console x) + 9) (console x') =
          [Node_create, Node_start, Console_log error ''BN_NODE_START_FAIL'',
           Console_log info ''BN_NODE_STARTED'', Console_log info ''BN_NODE_UNMAPPING'',
           Node_stop, Node_close, Node_release,
           if stop_completes env = success then Console_log info ''BN_NODE_STOPPED''
           else Console_log error ''BN_NODE_STOP_FAIL'']"
  using assms
  by (simp add: executor_run_def verify_def wait_on_stop_def monitor_stop_def await_stop_flag
      handle_seeded_def shared_from_this_def shared_owner_say shared_owner_initialize
      stopped_say console_say initialize_interrupt_def initialize_output_def no_interrupt_def
      Let_def)


end
